theory Spec2Isabelle
  imports Main
begin

section \<open>The operator console of haxball-server (src/painel.ts)\<close>

text \<open>
  The class \<open>ServerPainel\<close> listens to a Discord channel, parses each message into a
  command and drives the room server. This theory embeds its methods as HOL functions.

  Scope of the embedding.
  \<^item> A JavaScript string is a \<open>string\<close> (a list of 8-bit characters). The functions
    \<open>trim\<close> and \<open>toLowerCase\<close> are modelled on the ASCII range: the white space of
    \<open>trim\<close> is tab, line feed, vertical tab, form feed, carriage return and space, and
    \<open>toLowerCase\<close> maps \<open>A\<close>..\<open>Z\<close> to \<open>a\<close>..\<open>z\<close>. A character beyond ASCII
    is kept as it is.
  \<^item> Every effect on a collaborator (the channel, the file system, the room server, the
    process) is an event of a trace, in the order the code performs it; what a
    collaborator answers is a field of the environment \<open>env\<close>.
  \<^item> A rejected promise or a thrown exception is a value \<open>Err text\<close>, where
    \<open>text\<close> is the rendering of the error that string concatenation would give.
  \<^item> Floating point numbers are outside the embedding: a telemetry sample carries the
    decimal texts that \<open>toFixed(2)\<close> and string concatenation produce.
  \<^item> \<open>msg.channel.send\<close> and \<open>message.edit\<close> are taken to deliver what they are given.
\<close>

subsection \<open>String primitives of JavaScript\<close>

abbreviation NL :: char where
  "NL \<equiv> CHR 0x0A"

abbreviation SP :: char where
  "SP \<equiv> CHR 0x20"

abbreviation DQ :: char where
  "DQ \<equiv> CHR 0x22"

text \<open>\<open>s.startsWith(p)\<close>\<close>

fun startsWith :: "string \<Rightarrow> string \<Rightarrow> bool" where
  "startsWith s [] = True"
| "startsWith [] (p # ps) = False"
| "startsWith (c # cs) (p # ps) = (c = p \<and> startsWith cs ps)"

text \<open>\<open>s.slice(n)\<close> for \<open>n \<ge> 0\<close>\<close>

definition slice :: "nat \<Rightarrow> string \<Rightarrow> string" where
  "slice n s = drop n s"

definition is_ws :: "char \<Rightarrow> bool" where
  "is_ws c = (c = CHR 0x09 \<or> c = NL \<or> c = CHR 0x0B \<or> c = CHR 0x0C \<or> c = CHR 0x0D \<or> c = SP)"

text \<open>\<open>s.trim()\<close>\<close>

definition trim :: "string \<Rightarrow> string" where
  "trim s = rev (dropWhile is_ws (rev (dropWhile is_ws s)))"

text \<open>
  \<open>s.split(' ')\<close>: the text is cut at every single space. The result is never empty:
  the empty text gives one empty token, and two spaces in a row give an empty token
  between them.
\<close>

fun split_sp :: "string \<Rightarrow> string list" where
  "split_sp [] = [[]]"
| "split_sp (c # cs) =
     (if c = SP then [] # split_sp cs
      else (case split_sp cs of [] \<Rightarrow> [[c]] | w # ws \<Rightarrow> (c # w) # ws))"

text \<open>\<open>xs.join(sep)\<close>\<close>

fun join :: "string \<Rightarrow> string list \<Rightarrow> string" where
  "join sep [] = []"
| "join sep [x] = x"
| "join sep (x # y # ys) = x @ sep @ join sep (y # ys)"

text \<open>
  \<open>s.replace(pat, rep)\<close> with a string pattern: the first occurrence of \<open>pat\<close>
  is replaced, and a text without one is returned as it is. (The source only ever
  replaces by the empty text, so the \<open>$\<close> patterns of the replacement play no role.)
\<close>

fun replace_first :: "string \<Rightarrow> string \<Rightarrow> string \<Rightarrow> string" where
  "replace_first pat rep s =
     (if startsWith s pat then rep @ drop (length pat) s
      else (case s of [] \<Rightarrow> [] | c # cs \<Rightarrow> c # replace_first pat rep cs))"

declare replace_first.simps [simp del]

text \<open>\<open>s.replace(/\"/g, "")\<close>: every double quote is removed.\<close>

definition remove_quotes :: "string \<Rightarrow> string" where
  "remove_quotes s = filter (\<lambda>c. c \<noteq> DQ) s"

definition lower_char :: "char \<Rightarrow> char" where
  "lower_char c =
     (case map_of (zip ''ABCDEFGHIJKLMNOPQRSTUVWXYZ'' ''abcdefghijklmnopqrstuvwxyz'') c of
        Some d \<Rightarrow> d
      | None \<Rightarrow> c)"

text \<open>\<open>s.toLowerCase()\<close>\<close>

definition toLowerCase :: "string \<Rightarrow> string" where
  "toLowerCase s = map lower_char s"

text \<open>
  \<open>args[0] + " "\<close>: reading index 0 of an empty array gives \<open>undefined\<close>, which
  the concatenation renders as the text \<open>undefined\<close>.
\<close>

definition arg0_space :: "string list \<Rightarrow> string" where
  "arg0_space args = (case args of [] \<Rightarrow> ''undefined'' | a # _ \<Rightarrow> a) @ [SP]"

text \<open>The decimal rendering of a process id inside a template literal.\<close>

definition digit_char :: "nat \<Rightarrow> char" where
  "digit_char d = ''0123456789'' ! d"

function show_nat :: "nat \<Rightarrow> string" where
  "show_nat n = (if n < 10 then [digit_char n] else show_nat (n div 10) @ [digit_char (n mod 10)])"
  by pat_completeness auto
termination
  by (relation "measure id") auto

declare show_nat.simps [simp del]

subsection \<open>Parsing a message (lines 103 to 107 of \<open>_command\<close>)\<close>

text \<open>
  \<open>args\<close> before the \<open>shift\<close>, \<open>text\<close>, \<open>command\<close>, and \<open>args\<close> after the
  \<open>shift\<close>, for a message \<open>content\<close> and the configured prefix.
\<close>

definition stripped :: "string \<Rightarrow> string \<Rightarrow> string" where
  "stripped pre content = trim (slice (length pre) content)"

definition parse_args0 :: "string \<Rightarrow> string \<Rightarrow> string list" where
  "parse_args0 pre content = split_sp (stripped pre content)"

definition parse_text :: "string \<Rightarrow> string \<Rightarrow> string" where
  "parse_text pre content =
     replace_first (arg0_space (parse_args0 pre content)) [] (stripped pre content)"

definition parse_command :: "string \<Rightarrow> string \<Rightarrow> string option" where
  "parse_command pre content =
     (case parse_args0 pre content of [] \<Rightarrow> None | a # _ \<Rightarrow> Some (toLowerCase a))"

definition parse_args :: "string \<Rightarrow> string \<Rightarrow> string list" where
  "parse_args pre content = tl (parse_args0 pre content)"

subsection \<open>Data\<close>

text \<open>An exception or a rejection, by the text it renders to.\<close>

datatype error = Err string

fun error_text :: "error \<Rightarrow> string" where
  "error_text (Err t) = t"

text \<open>
  A \<open>Discord.MessageEmbed\<close>: the colour, the title and the description once set, and
  the fields added so far (name, value, inline flag). The time stamp of the error log
  is left out.
\<close>

record embed =
  e_color :: "string option"
  e_title :: "string option"
  e_description :: "string option"
  e_fields :: "(string \<times> string \<times> bool) list"

definition new_embed :: embed where
  "new_embed = \<lparr>e_color = None, e_title = None, e_description = None, e_fields = []\<rparr>"

definition setColor :: "string \<Rightarrow> embed \<Rightarrow> embed" where
  "setColor c e = e\<lparr>e_color := Some c\<rparr>"

definition setTitle :: "string \<Rightarrow> embed \<Rightarrow> embed" where
  "setTitle t e = e\<lparr>e_title := Some t\<rparr>"

definition setDescription :: "string \<Rightarrow> embed \<Rightarrow> embed" where
  "setDescription d e = e\<lparr>e_description := Some d\<rparr>"

definition addField :: "string \<Rightarrow> string \<Rightarrow> bool \<Rightarrow> embed \<Rightarrow> embed" where
  "addField n v i e = e\<lparr>e_fields := e_fields e @ [(n, v, i)]\<rparr>"

text \<open>
  What \<open>pidusage\<close> answers for one process: the process id and the texts of
  \<open>cpu.toFixed(2)\<close> and \<open>(memory * 1e-6).toFixed(2)\<close>.
\<close>

record usage =
  u_pid :: nat
  u_cpu :: string
  u_mem :: string

text \<open>
  A browser of \<open>this._server.browsers\<close>, by what its methods answer:
  \<open>b_page\<close> is \<open>Inl e\<close> when \<open>browser.pages()\<close> rejects, \<open>Inr (Inl e)\<close> when the
  first page's \<open>title()\<close> fails, and \<open>Inr (Inr t)\<close> when the title is \<open>t\<close>;
  \<open>b_pid\<close> is \<open>browser.process()?.pid\<close>; \<open>b_proxy\<close> is \<open>browser["proxyServer"]\<close>;
  \<open>b_usage\<close> is the answer of \<open>pidusage\<close> for the browser's process.
\<close>

record browser =
  b_page :: "error + (error + string)"
  b_pid :: "nat option"
  b_proxy :: "string option"
  b_usage :: "error + usage"

record message =
  content :: string
  author_id :: string

text \<open>The effects of handling a message, in the order they happen.\<close>

datatype effect =
    Send embed
  | SendCode string
  | SendText string
  | Edit embed
  | ReadFile string
  | Open string string
  | Close string
  | BrowserClose nat
  | Exit

text \<open>How the promise of an \<open>async\<close> method ends.\<close>

datatype outcome = Fulfilled | Rejected error | ProcessExit

text \<open>
  The configuration (\<open>prefix\<close>, \<open>mastersDiscordId\<close>, \<open>bots\<close> in key order) and the
  answers of the collaborators: the server (\<open>browsers\<close>, \<open>open\<close>, \<open>close\<close>), the file
  system, the host telemetry of \<open>node-os-utils\<close>, \<open>pidusage\<close> of the console's own
  process, and JavaScript's \<open>eval\<close> followed by \<open>util.inspect\<close>.
  \<open>server_open\<close> answers the texts of \<open>e?.link\<close> and \<open>e?.pid\<close>;
  \<open>mem_info\<close> the texts of used and total memory in GB and of the free percentage;
  \<open>cpu_usage\<close> the texts of \<open>cpuUsage\<close> and of \<open>100 - cpuUsage\<close>.
\<close>

record env =
  prefix :: string
  mastersDiscordId :: "string list"
  bots :: "(string \<times> string) list"
  browsers :: "browser list"
  server_open :: "string \<Rightarrow> string \<Rightarrow> error + (string \<times> string)"
  server_close :: "string \<Rightarrow> error + bool"
  read_file :: "string \<Rightarrow> error + string"
  mem_info :: "error + (string \<times> string \<times> string)"
  cpu_usage :: "error + (string \<times> string)"
  cpu_count :: string
  os_oos :: "error + string"
  os_uptime :: string
  server_usage :: "error + usage"
  js_eval :: "string \<Rightarrow> error + string"

subsection \<open>\<open>_getRoomNameList\<close>\<close>

record room =
  r_name :: string
  r_proxy :: "string option"

text \<open>\<open>${pid}\<close> and \<open>${proxy}\<close> in a template literal.\<close>

definition show_pid :: "nat option \<Rightarrow> string" where
  "show_pid p = (case p of None \<Rightarrow> ''undefined'' | Some n \<Rightarrow> show_nat n)"

definition show_proxy :: "string option \<Rightarrow> string" where
  "show_proxy p = (case p of None \<Rightarrow> ''undefined'' | Some l \<Rightarrow> l)"

text \<open>The body of the first loop: one browser's entry, or the failure of reading it.\<close>

definition room_of :: "browser \<Rightarrow> error + room" where
  "room_of b =
     (case b_page b of
        Inl e \<Rightarrow> Inl e
      | Inr page \<Rightarrow>
          (case page of
             Inl e \<Rightarrow> Inl e
           | Inr t \<Rightarrow> Inr \<lparr>r_name = t @ '' ('' @ show_pid (b_pid b) @ '')'', r_proxy = b_proxy b\<rparr>))"

fun collect_rooms :: "browser list \<Rightarrow> error + room list" where
  "collect_rooms [] = Inr []"
| "collect_rooms (b # bs) =
     (case room_of b of
        Inl e \<Rightarrow> Inl e
      | Inr r \<Rightarrow> (case collect_rooms bs of Inl e \<Rightarrow> Inl e | Inr rs \<Rightarrow> Inr (r # rs)))"

record proxy_room =
  pr_text :: string
  pr_proxy :: "string option"

text \<open>
  The body of the second loop: \<open>find\<close> returns the first group with the room's proxy,
  whose text grows by the room's name and a line feed; without one a new group is pushed
  at the end.
\<close>

fun add_room :: "room \<Rightarrow> proxy_room list \<Rightarrow> proxy_room list" where
  "add_room r [] = [\<lparr>pr_text = r_name r @ [NL], pr_proxy = r_proxy r\<rparr>]"
| "add_room r (p # ps) =
     (if pr_proxy p = r_proxy r then p\<lparr>pr_text := pr_text p @ r_name r @ [NL]\<rparr> # ps
      else p # add_room r ps)"

definition group_rooms :: "room list \<Rightarrow> proxy_room list" where
  "group_rooms rooms = foldl (\<lambda>acc r. add_room r acc) [] rooms"

text \<open>The bullet U+2022 (in UTF-8) and a space, the start of a group's header.\<close>

definition bullet :: string where
  "bullet = [CHR 0xE2, CHR 0x80, CHR 0xA2, SP]"

definition render_group :: "proxy_room \<Rightarrow> string" where
  "render_group g = bullet @ show_proxy (pr_proxy g) @ [NL] @ pr_text g"

definition describe :: "room list \<Rightarrow> string" where
  "describe rooms =
     (if rooms = [] then ''There are no open rooms!''
      else if list_all (\<lambda>r. r_proxy r = None) rooms then join [NL] (map r_name rooms)
      else join [NL] (map render_group (group_rooms rooms)))"

definition getRoomNameList :: "browser list \<Rightarrow> error + string" where
  "getRoomNameList bs =
     (case collect_rooms bs of Inl e \<Rightarrow> Inl e | Inr rooms \<Rightarrow> Inr (describe rooms))"

subsection \<open>\<open>_getRoomUsageList\<close>\<close>

record room_usage =
  ru_process :: usage
  ru_title :: string

text \<open>
  The body of the loop: \<open>browser.pages()\<close>, then \<open>pidusage\<close>, then the title of the
  first page; the first of them to fail ends the loop.
\<close>

definition sample_room :: "browser \<Rightarrow> error + room_usage" where
  "sample_room b =
     (case b_page b of
        Inl e \<Rightarrow> Inl e
      | Inr page \<Rightarrow>
          (case b_usage b of
             Inl e \<Rightarrow> Inl e
           | Inr u \<Rightarrow>
               (case page of
                  Inl e \<Rightarrow> Inl e
                | Inr t \<Rightarrow> Inr \<lparr>ru_process = u, ru_title = t\<rparr>)))"

fun getRoomUsageList :: "browser list \<Rightarrow> error + room_usage list" where
  "getRoomUsageList [] = Inr []"
| "getRoomUsageList (b # bs) =
     (case sample_room b of
        Inl e \<Rightarrow> Inl e
      | Inr u \<Rightarrow> (case getRoomUsageList bs of Inl e \<Rightarrow> Inl e | Inr us \<Rightarrow> Inr (u # us)))"

subsection \<open>\<open>_command\<close>\<close>

text \<open>\<open>new Discord.MessageEmbed().setColor('#0099ff')\<close>\<close>

definition base_embed :: embed where
  "base_embed = setColor ''#0099ff'' new_embed"

definition help_embed :: embed where
  "help_embed =
     addField ''tokenlink'' ''Haxball Headless Token page.'' True
      (addField ''eval'' ''Execute Javascript.'' True
      (addField ''exit'' ''Close the server.'' True
      (addField ''close'' ''Close a room.'' True
      (addField ''open'' ''Open a room.'' True
      (addField ''meminfo'' ''CPU and memory info.'' True
      (addField ''info'' ''Server info.'' True
      (addField ''help'' ''Command list.'' True
      (setDescription ''Haxball Server is a small server utility for Haxball rooms.''
      (setTitle ''Help'' base_embed)))))))))"

definition tokenlink_embed :: embed where
  "tokenlink_embed =
     setDescription ''[Click here.](https://www.haxball.com/headlesstoken)''
      (setTitle ''Headless Token'' base_embed)"

definition unknown_bot_text :: "string \<Rightarrow> string" where
  "unknown_bot_text pre =
     ''This bot does not exist. Type '' @ pre @ ''info to see the list of available bots.''"

definition missing_token_text :: "string \<Rightarrow> string" where
  "missing_token_text pre =
     ''You have to define a headless token [token](https://www.haxball.com/headlesstoken) as second argument: ''
       @ pre @ ''open <bot> <token>''"

text \<open>Line 139: the token handed to \<open>this._server.open\<close>.\<close>

definition open_token :: "string \<Rightarrow> string list \<Rightarrow> string" where
  "open_token text args =
     replace_first ''Token obtained: '' [] (remove_quotes (replace_first (arg0_space args) [] text))"

text \<open>\<open>Object.keys(this._bots).includes(args[0])\<close>; \<open>undefined\<close> is no key.\<close>

definition known_bot :: "(string \<times> string) list \<Rightarrow> string list \<Rightarrow> bool" where
  "known_bot bs args = (case args of [] \<Rightarrow> False | a # _ \<Rightarrow> a \<in> set (map fst bs))"

text \<open>\<open>this._bots[args[0]]\<close>\<close>

definition bot_path :: "(string \<times> string) list \<Rightarrow> string list \<Rightarrow> string" where
  "bot_path bs args =
     (case args of
        [] \<Rightarrow> ''undefined''
      | a # _ \<Rightarrow> (case map_of bs a of None \<Rightarrow> ''undefined'' | Some p \<Rightarrow> p))"

text \<open>
  The callback of \<open>fs.readFile\<close>: it runs after the file is read, sets the description
  in each of its three branches and sends the embed.
\<close>

definition open_callback :: "env \<Rightarrow> embed \<Rightarrow> string \<Rightarrow> error + string \<Rightarrow> effect list" where
  "open_callback env emb token file =
     (case file of
        Inl err \<Rightarrow> [Send (setDescription (''Error: '' @ error_text err) emb)]
      | Inr data \<Rightarrow>
          (case server_open env data token of
             Inr e \<Rightarrow>
               [Open data token,
                Send (setDescription
                  (''Room running! [Click here to join.]('' @ fst e @ '')'' @ [NL]
                     @ ''Browser process: '' @ snd e) emb)]
           | Inl e \<Rightarrow>
               [Open data token,
                Send (setDescription (''Unable to open the room!'' @ [NL, SP] @ error_text e) emb)]))"

definition cmd_open :: "env \<Rightarrow> string \<Rightarrow> string list \<Rightarrow> effect list \<times> outcome" where
  "cmd_open env text args =
     (let emb = setTitle ''Open room'' base_embed;
          token = open_token text args
      in if \<not> known_bot (bots env) args
         then ([Send (setDescription (unknown_bot_text (prefix env)) emb)], Fulfilled)
         else
           (let emb1 = (if token = [] then setDescription (missing_token_text (prefix env)) emb
                          else emb);
                path = bot_path (bots env) args
            in (ReadFile path # open_callback env emb1 token (read_file env path), Fulfilled)))"

definition cmd_info :: "env \<Rightarrow> effect list \<times> outcome" where
  "cmd_info env =
     (case getRoomNameList (browsers env) of
        Inl e \<Rightarrow> ([], Rejected e)
      | Inr roomList \<Rightarrow>
          ([Send (addField ''Bot list'' (join [NL] (map fst (bots env))) False
                  (addField ''Open rooms'' roomList False
                  (setTitle ''Information'' base_embed)))], Fulfilled))"

definition loading_embed :: embed where
  "loading_embed = setDescription ''Loading...'' (setTitle ''Information'' (setColor ''#0099ff'' new_embed))"

definition room_line :: "room_usage \<Rightarrow> string" where
  "room_line r =
     ''**'' @ ru_title r @ '' ('' @ show_nat (u_pid (ru_process r)) @ '')**:'' @ [NL]
       @ u_cpu (ru_process r) @ ''% CPU'' @ [NL]
       @ u_mem (ru_process r) @ '' MB memory'' @ [NL]"

text \<open>
  The report of \<open>meminfo\<close>, from the samples in the order the code awaits them: the
  rooms, \<open>mem.info()\<close>, \<open>cpu.usage()\<close>, \<open>os.oos()\<close>, \<open>pidusage(process.pid)\<close>.
  The first rejection ends the method.
\<close>

definition meminfo_report :: "env \<Rightarrow> error + embed" where
  "meminfo_report env =
     (case getRoomUsageList (browsers env) of
        Inl e \<Rightarrow> Inl e
      | Inr roomsUsage \<Rightarrow>
     (case mem_info env of
        Inl e \<Rightarrow> Inl e
      | Inr (usedGb, totalGb, freePct) \<Rightarrow>
     (case cpu_usage env of
        Inl e \<Rightarrow> Inl e
      | Inr (cpuUsage, freeCpu) \<Rightarrow>
     (case os_oos env of
        Inl e \<Rightarrow> Inl e
      | Inr osName \<Rightarrow>
     (case server_usage env of
        Inl e \<Rightarrow> Inl e
      | Inr serverPIDUsage \<Rightarrow>
          (let serverCPUUsage =
                 ''CPU server usage: '' @ u_cpu serverPIDUsage @ ''%'' @ [NL]
                   @ ''Memory server usage: '' @ u_mem serverPIDUsage @ '' MB'' @ [NL];
               roomCPUMessage =
                 (if length (browsers env) > 0 then [NL] @ join [NL] (map room_line roomsUsage)
                  else [])
           in Inr (setDescription (serverCPUUsage @ roomCPUMessage @ [NL])
                (addField ''Machine Uptime'' (os_uptime env) True
                (addField ''OS'' osName True
                (addField ''Memory''
                   (usedGb @ ''/'' @ totalGb @ '' GB ('' @ freePct @ ''% livre)'') True
                (addField ''Free CPU'' (freeCpu @ ''%'') True
                (addField ''CPU usage'' (cpuUsage @ ''%'') True
                (addField ''CPUs'' (cpu_count env) True
                (setTitle ''Information'' base_embed))))))))))))))"

text \<open>
  \<open>meminfo\<close>: the loading message is sent first; the report replaces it by
  \<open>message.edit\<close> once every sample has arrived.
\<close>

definition cmd_meminfo :: "env \<Rightarrow> effect list \<times> outcome" where
  "cmd_meminfo env =
     (case meminfo_report env of
        Inl e \<Rightarrow> ([Send loading_embed], Rejected e)
      | Inr emb \<Rightarrow> ([Send loading_embed, Edit emb], Fulfilled))"

definition cmd_close :: "env \<Rightarrow> string \<Rightarrow> effect list \<times> outcome" where
  "cmd_close env text =
     (let emb = setDescription ''Unable to find room'' (setTitle ''Close room'' base_embed)
      in case server_close env text of
           Inl e \<Rightarrow> ([Close text], Rejected e)
         | Inr res \<Rightarrow>
             ([Close text, Send (if res then setDescription ''Room closed!'' emb else emb)],
              Fulfilled))"

text \<open>\<open>exit\<close>: every browser's \<open>close()\<close> is started, then the process exits.\<close>

definition cmd_exit :: "env \<Rightarrow> effect list \<times> outcome" where
  "cmd_exit env =
     (Send (setDescription ''Closing server...'' (setTitle ''Closing'' base_embed))
        # map BrowserClose [0 ..< length (browsers env)] @ [Exit],
      ProcessExit)"

abbreviation BQ :: char where
  "BQ \<equiv> CHR 0x60"

definition cmd_eval :: "env \<Rightarrow> string list \<Rightarrow> effect list \<times> outcome" where
  "cmd_eval env args =
     (case js_eval env (join [SP] args) of
        Inr evaled \<Rightarrow> ([SendCode evaled], Fulfilled)
      | Inl err \<Rightarrow>
          ([SendText ([BQ] @ ''ERROR'' @ [BQ, SP, BQ, BQ, BQ] @ ''xl'' @ [NL] @ error_text err
                        @ [NL, BQ, BQ, BQ])], Fulfilled))"

text \<open>
  \<open>_command\<close>. The source tests \<open>command\<close> against each name in turn, in
  this order; the names differ, so at most one test holds. The branch of \<open>open\<close>
  for an unknown bot returns, all others fall through to the end.
\<close>

definition command :: "env \<Rightarrow> message \<Rightarrow> effect list \<times> outcome" where
  "command env msg =
     (if \<not> startsWith (content msg) (prefix env) then ([], Fulfilled)
      else
        (let text = parse_text (prefix env) (content msg);
             cmd = parse_command (prefix env) (content msg);
             args = parse_args (prefix env) (content msg)
         in if author_id msg \<in> set (mastersDiscordId env) then
              (if cmd = Some ''help'' then ([Send help_embed], Fulfilled)
               else if cmd = Some ''tokenlink'' then ([Send tokenlink_embed], Fulfilled)
               else if cmd = Some ''open'' then cmd_open env text args
               else if cmd = Some ''info'' then cmd_info env
               else if cmd = Some ''meminfo'' then cmd_meminfo env
               else if cmd = Some ''close'' then cmd_close env text
               else if cmd = Some ''exit'' then cmd_exit env
               else if cmd = Some ''eval'' then cmd_eval env args
               else ([], Fulfilled))
            else ([], Fulfilled)))"

subsection \<open>The listener of the constructor (lines 41 to 47) and \<open>_logError\<close>\<close>

definition logError :: "error \<Rightarrow> effect list" where
  "logError e =
     [Send (setDescription (error_text e) (setTitle ''Log Error'' (setColor ''#0099ff'' new_embed)))]"

text \<open>
  What a call gives its caller at once: a value, or an exception thrown at the caller.
  Calling an \<open>async\<close> method gives its promise and never throws: a failure inside the
  method rejects the promise.
\<close>

datatype 'a completion = Returned 'a | Thrown error

definition call_async :: "'a \<Rightarrow> 'a completion" where
  "call_async promise = Returned promise"

text \<open>
  What reaches the event loop of the channel: nothing, a rejection that no handler took,
  or the end of the process.
\<close>

datatype escape = Quiet | UnhandledRejection error | Exited

text \<open>
  The listener: \<open>try { this._command(msg); } catch (e) { this._logError(e, ...); }\<close>.
  The promise of \<open>_command\<close> is not awaited, so the \<open>catch\<close> sees only what the
  call throws at once.
\<close>

definition on_message :: "env \<Rightarrow> message \<Rightarrow> effect list \<times> escape" where
  "on_message env msg =
     (case call_async (command env msg) of
        Thrown e \<Rightarrow> (logError e, Quiet)
      | Returned promise \<Rightarrow>
          (fst promise,
           (case snd promise of
              Fulfilled \<Rightarrow> Quiet
            | Rejected e \<Rightarrow> UnhandledRejection e
            | ProcessExit \<Rightarrow> Exited)))"

section \<open>Reference notions and example inputs\<close>

text \<open>The names that \<open>_command\<close> tests \<open>command\<close> against, in the order of the source.\<close>

definition command_names :: "string list" where
  "command_names =
     [''help'', ''tokenlink'', ''open'', ''info'', ''meminfo'', ''close'', ''exit'', ''eval'']"

text \<open>The effects that reach the fleet of rooms: spawning, closing, shutting down.\<close>

definition touches_fleet :: "effect \<Rightarrow> bool" where
  "touches_fleet e =
     (case e of Open _ _ \<Rightarrow> True | Close _ \<Rightarrow> True | BrowserClose _ \<Rightarrow> True | Exit \<Rightarrow> True
      | _ \<Rightarrow> False)"

text \<open>
  An example console: prefix \<open>!\<close>, one operator \<open>op\<close>, one bot \<open>alpha\<close>, no open room,
  and collaborators that all answer.
\<close>

definition ex_env :: env where
  "ex_env =
     \<lparr>prefix = ''!'', mastersDiscordId = [''op''], bots = [(''alpha'', ''bots/alpha.js'')],
      browsers = [],
      server_open = (\<lambda>d t. Inr (''https://hax/r'', ''4242'')),
      server_close = (\<lambda>t. Inr False),
      read_file = (\<lambda>p. Inr ''payload''),
      mem_info = Inr (''1.00'', ''8.00'', ''87''),
      cpu_usage = Inr (''12'', ''88''),
      cpu_count = ''4'',
      os_oos = Inr ''Linux'',
      os_uptime = ''01:02:03'',
      server_usage = Inr \<lparr>u_pid = 1, u_cpu = ''0.50'', u_mem = ''50.00''\<rparr>,
      js_eval = (\<lambda>c. Inl (Err ''ReferenceError''))\<rparr>"

text \<open>The same console with a room server whose \<open>close\<close> rejects.\<close>

definition ex_env_close_fails :: env where
  "ex_env_close_fails = ex_env\<lparr>server_close := (\<lambda>t. Inl (Err ''Target closed''))\<rparr>"

text \<open>The operator's message \<open>!close Room A\<close>.\<close>

definition msg_close_room :: message where
  "msg_close_room = \<lparr>content = ''!close Room A'', author_id = ''op''\<rparr>"

text \<open>The operator's message \<open>!open alpha ""\<close>: a known bot and an empty quoted token.\<close>

definition msg_empty_token :: message where
  "msg_empty_token = \<lparr>content = ''!open alpha '' @ [DQ, DQ], author_id = ''op''\<rparr>"

subsection \<open>Fleets\<close>

text \<open>The distinct elements of a list, in the order of their first occurrence.\<close>

definition first_seen :: "'a list \<Rightarrow> 'a list" where
  "first_seen xs = rev (remdups (rev xs))"

text \<open>The lines of the rooms with proxy label \<open>p\<close>, in the order of the fleet.\<close>

definition members :: "room list \<Rightarrow> string option \<Rightarrow> string" where
  "members rooms p = concat (map (\<lambda>r. r_name r @ [NL]) (filter (\<lambda>r. r_proxy r = p) rooms))"

text \<open>
  The fleet of the specification's scenario: rooms A and B behind \<open>proxy1\<close>, room C
  without a proxy; the process ids and the telemetry are chosen here.
\<close>

definition ex_fleet :: "browser list" where
  "ex_fleet =
     [\<lparr>b_page = Inr (Inr ''Room A''), b_pid = Some 101, b_proxy = Some ''proxy1'',
       b_usage = Inr \<lparr>u_pid = 101, u_cpu = ''1.50'', u_mem = ''120.00''\<rparr>\<rparr>,
      \<lparr>b_page = Inr (Inr ''Room B''), b_pid = Some 102, b_proxy = Some ''proxy1'',
       b_usage = Inr \<lparr>u_pid = 102, u_cpu = ''2.50'', u_mem = ''130.00''\<rparr>\<rparr>,
      \<lparr>b_page = Inr (Inr ''Room C''), b_pid = Some 103, b_proxy = None,
       b_usage = Inr \<lparr>u_pid = 103, u_cpu = ''3.50'', u_mem = ''140.00''\<rparr>\<rparr>]"

text \<open>The same fleet when \<open>pidusage\<close> rejects for room B.\<close>

definition ex_fleet_b_fails :: "browser list" where
  "ex_fleet_b_fails =
     [\<lparr>b_page = Inr (Inr ''Room A''), b_pid = Some 101, b_proxy = Some ''proxy1'',
       b_usage = Inr \<lparr>u_pid = 101, u_cpu = ''1.50'', u_mem = ''120.00''\<rparr>\<rparr>,
      \<lparr>b_page = Inr (Inr ''Room B''), b_pid = Some 102, b_proxy = Some ''proxy1'',
       b_usage = Inl (Err ''No matching pid found'')\<rparr>,
      \<lparr>b_page = Inr (Inr ''Room C''), b_pid = Some 103, b_proxy = None,
       b_usage = Inr \<lparr>u_pid = 103, u_cpu = ''3.50'', u_mem = ''140.00''\<rparr>\<rparr>]"

text \<open>The operator's message \<open>!meminfo\<close>.\<close>

definition msg_meminfo :: message where
  "msg_meminfo = \<lparr>content = ''!meminfo'', author_id = ''op''\<rparr>"

subsection \<open>The parsing as the specification words it\<close>

text \<open>
  The specification's sentence on parsing, taken by its words: the text after the prefix
  is split on white space (runs of white space separate the tokens, and no token is
  empty); the first token, in lower case, is the command name; the other tokens are
  \<open>rawArgs\<close>; \<open>rawTail\<close> is the trimmed text with the first occurrence of the
  command token removed. These definitions are compared with the parsing of the source.
\<close>

fun words_from :: "string \<Rightarrow> string \<Rightarrow> string list" where
  "words_from w [] = (if w = [] then [] else [w])"
| "words_from w (c # cs) =
     (if is_ws c then (if w = [] then words_from [] cs else w # words_from [] cs)
      else words_from (w @ [c]) cs)"

definition spec_tokens :: "string \<Rightarrow> string list" where
  "spec_tokens s = words_from [] s"

definition spec_name :: "string \<Rightarrow> string \<Rightarrow> string option" where
  "spec_name pre line =
     (case spec_tokens (drop (length pre) line) of [] \<Rightarrow> None | a # _ \<Rightarrow> Some (toLowerCase a))"

definition spec_rawArgs :: "string \<Rightarrow> string \<Rightarrow> string list" where
  "spec_rawArgs pre line = tl (spec_tokens (drop (length pre) line))"

definition spec_rawTail :: "string \<Rightarrow> string \<Rightarrow> string" where
  "spec_rawTail pre line =
     (case spec_tokens (drop (length pre) line) of
        [] \<Rightarrow> trim (drop (length pre) line)
      | a # _ \<Rightarrow> replace_first a [] (trim (drop (length pre) line)))"

text \<open>
  The token of \<open>open\<close> as the claim words it: the text of the second argument (what
  follows the bot id among the arguments), without double quotes and without the text
  \<open>Token obtained: \<close>.
\<close>

definition spec_open_token :: "string list \<Rightarrow> string" where
  "spec_open_token args =
     replace_first ''Token obtained: '' [] (remove_quotes (join [SP] (tl args)))"

text \<open>The operator's message \<open>!open alpha Token obtained: "thr1.AAA"\<close>.\<close>

definition msg_pasted_token :: message where
  "msg_pasted_token =
     \<lparr>content = ''!open alpha Token obtained: '' @ [DQ] @ ''thr1.AAA'' @ [DQ], author_id = ''op''\<rparr>"

section \<open>Properties\<close>

subsection \<open>Strings\<close>

lemma startsWith_iff: "startsWith s p \<longleftrightarrow> take (length p) s = p"
  by (induction s p rule: startsWith.induct) auto

lemma startsWith_append [simp]: "startsWith (p @ r) p"
  by (simp add: startsWith_iff)

lemma startsWith_decompose: "startsWith s p \<Longrightarrow> s = p @ drop (length p) s"
  by (metis append_take_drop_id startsWith_iff)

lemma startsWith_length: "startsWith s p \<Longrightarrow> length p \<le> length s"
  by (metis startsWith_decompose length_append le_add1)

lemma replace_first_prefix: "replace_first p rep (p @ r) = rep @ r"
  by (subst replace_first.simps) simp

lemma replace_first_short: "length s < length p \<Longrightarrow> replace_first p rep s = s"
proof (induction s)
  case Nil
  then show ?case by (subst replace_first.simps) (auto dest: startsWith_length)
next
  case (Cons c s)
  then show ?case by (subst replace_first.simps) (auto dest: startsWith_length)
qed

lemma split_sp_not_Nil [simp]: "split_sp s \<noteq> []"
  by (induction s) (auto split: list.splits)

lemma split_sp_no_space: "SP \<notin> set s \<Longrightarrow> split_sp s = [s]"
  by (induction s) auto

lemma split_sp_unfold:
  "split_sp s = takeWhile (\<lambda>c. c \<noteq> SP) s
      # (case dropWhile (\<lambda>c. c \<noteq> SP) s of [] \<Rightarrow> [] | _ # r \<Rightarrow> split_sp r)"
  by (induction s) (auto split: list.splits)

lemma hd_split_sp: "hd (split_sp s) = takeWhile (\<lambda>c. c \<noteq> SP) s"
  by (subst split_sp_unfold) simp

lemma dropWhile_space: "SP \<in> set t \<Longrightarrow> \<exists>r. dropWhile (\<lambda>c. c \<noteq> SP) t = SP # r"
  by (induction t) auto

lemma join_Cons: "ws \<noteq> [] \<Longrightarrow> join sep (w # ws) = w @ sep @ join sep ws"
  by (cases ws) auto

lemma join_split_sp: "join [SP] (split_sp s) = s"
proof (induction s)
  case Nil
  then show ?case by simp
next
  case (Cons c s)
  show ?case
  proof (cases "c = SP")
    case True
    with Cons show ?thesis by (simp add: join_Cons)
  next
    case False
    obtain w ws where sp: "split_sp s = w # ws"
      by (cases "split_sp s") auto
    with Cons have "join [SP] (w # ws) = s" by simp
    then have "join [SP] ((c # w) # ws) = c # s" by (cases ws) auto
    with False sp show ?thesis by simp
  qed
qed

lemma split_sp_tokens: "w \<in> set (split_sp s) \<Longrightarrow> SP \<notin> set w"
  by (induction s arbitrary: w) (auto split: list.splits if_splits)

lemma trim_no_ws:
  assumes "\<forall>c\<in>set s. \<not> is_ws c"
  shows "trim s = s"
proof -
  have "dropWhile is_ws s = s"
    using assms by (intro dropWhile_id) auto
  moreover have "dropWhile is_ws (rev s) = rev s"
    using assms by (intro dropWhile_id) auto
  ultimately show ?thesis by (simp add: trim_def)
qed

lemma is_ws_SP [simp]: "is_ws SP"
  by (simp add: is_ws_def)

subsection \<open>Evaluation lemmas\<close>

lemmas parse_defs = parse_command_def parse_text_def parse_args_def parse_args0_def stripped_def
  trim_def slice_def arg0_space_def is_ws_def toLowerCase_def lower_char_def replace_first.simps

lemmas embed_defs = base_embed_def setDescription_def setTitle_def setColor_def addField_def
  new_embed_def

lemma ex_env_simps:
  "prefix ex_env = ''!''"
  "mastersDiscordId ex_env = [''op'']"
  "bots ex_env = [(''alpha'', ''bots/alpha.js'')]"
  "read_file ex_env p = Inr ''payload''"
  "server_open ex_env d t = Inr (''https://hax/r'', ''4242'')"
  by (simp_all add: ex_env_def)

text \<open>The dispatch of an operator's message to the handler of its command.\<close>

lemma command_open:
  assumes "startsWith (content msg) (prefix env)"
    and "author_id msg \<in> set (mastersDiscordId env)"
    and "parse_command (prefix env) (content msg) = Some ''open''"
  shows "command env msg =
     cmd_open env (parse_text (prefix env) (content msg)) (parse_args (prefix env) (content msg))"
  using assms by (simp add: command_def Let_def)

lemma command_close:
  assumes "startsWith (content msg) (prefix env)"
    and "author_id msg \<in> set (mastersDiscordId env)"
    and "parse_command (prefix env) (content msg) = Some ''close''"
  shows "command env msg = cmd_close env (parse_text (prefix env) (content msg))"
  using assms by (simp add: command_def Let_def)

lemma command_meminfo:
  assumes "startsWith (content msg) (prefix env)"
    and "author_id msg \<in> set (mastersDiscordId env)"
    and "parse_command (prefix env) (content msg) = Some ''meminfo''"
  shows "command env msg = cmd_meminfo env"
  using assms by (simp add: command_def Let_def)

text \<open>Every handler leaves a trace or a rejection: none of them is silent.\<close>

lemma cmd_open_not_silent: "cmd_open env t a \<noteq> ([], Fulfilled)"
  by (simp add: cmd_open_def Let_def)

lemma cmd_info_not_silent: "cmd_info env \<noteq> ([], Fulfilled)"
  by (simp add: cmd_info_def split: sum.splits)

lemma cmd_meminfo_not_silent: "cmd_meminfo env \<noteq> ([], Fulfilled)"
  by (simp add: cmd_meminfo_def split: sum.splits)

lemma cmd_close_not_silent: "cmd_close env t \<noteq> ([], Fulfilled)"
  by (simp add: cmd_close_def Let_def split: sum.splits)

lemma cmd_exit_not_silent: "cmd_exit env \<noteq> ([], Fulfilled)"
  by (simp add: cmd_exit_def)

lemma cmd_eval_not_silent: "cmd_eval env a \<noteq> ([], Fulfilled)"
  by (simp add: cmd_eval_def split: sum.splits)

lemmas not_silent = cmd_open_not_silent cmd_info_not_silent cmd_meminfo_not_silent
  cmd_close_not_silent cmd_exit_not_silent cmd_eval_not_silent

subsection \<open>Parsing\<close>

text \<open>
  \<open>text\<close> is what follows the first space of the trimmed text, or the whole trimmed
  text when it has no space.
\<close>

lemma replace_first_token:
  "replace_first (arg0_space (split_sp t)) [] t
     = (if SP \<in> set t then tl (dropWhile (\<lambda>c. c \<noteq> SP) t) else t)"
proof (cases "SP \<in> set t")
  case False
  then have "arg0_space (split_sp t) = t @ [SP]"
    by (simp add: split_sp_no_space arg0_space_def)
  with False show ?thesis by (simp add: replace_first_short)
next
  case True
  then obtain r where d: "dropWhile (\<lambda>c. c \<noteq> SP) t = SP # r"
    using dropWhile_space by blast
  have t: "t = takeWhile (\<lambda>c. c \<noteq> SP) t @ SP # r"
    using takeWhile_dropWhile_id [of "\<lambda>c. c \<noteq> SP" t] d by simp
  have "arg0_space (split_sp t) = takeWhile (\<lambda>c. c \<noteq> SP) t @ [SP]"
    by (subst split_sp_unfold) (simp add: arg0_space_def)
  then have "replace_first (arg0_space (split_sp t)) [] t
      = replace_first (takeWhile (\<lambda>c. c \<noteq> SP) t @ [SP]) [] ((takeWhile (\<lambda>c. c \<noteq> SP) t @ [SP]) @ r)"
    using t by simp
  also have "\<dots> = r" by (simp only: replace_first_prefix append_Nil)
  finally show ?thesis using True d by simp
qed

lemmas spec_defs = spec_tokens_def spec_name_def spec_rawArgs_def spec_rawTail_def

text \<open>
  C6 (as stated, refuted). With two spaces after the command, the source's \<open>rawArgs\<close>
  hold an empty token where splitting on white space gives none; and for a command
  without arguments the source's \<open>rawTail\<close> is the command as typed, where removing
  the command name leaves the empty text.
\<close>

theorem parse_differs_from_spec_wording:
  "parse_args ''!'' ''!close  A'' = [[], ''A'']
   \<and> spec_rawArgs ''!'' ''!close  A'' = [''A'']
   \<and> parse_text ''!'' ''!close'' = ''close''
   \<and> spec_rawTail ''!'' ''!close'' = []"
  by (simp add: parse_defs spec_defs)

text \<open>
  C6 (amended). For a message that begins with the prefix, the prefix is cut off and the
  rest is trimmed; the trimmed text is cut at every single space, so that joining the
  tokens by single spaces gives the trimmed text back and no token holds a space; the
  command is the first token in lower case and \<open>args\<close> are the other tokens. When
  the trimmed text holds a space, \<open>text\<close> is what follows its first space: the
  trimmed text without the first token and the space after it.
\<close>

theorem parse_by_single_spaces:
  assumes "startsWith line pre"
  shows "line = pre @ drop (length pre) line
     \<and> parse_command pre line
          = Some (toLowerCase (takeWhile (\<lambda>c. c \<noteq> SP) (trim (drop (length pre) line))))
     \<and> join [SP] (takeWhile (\<lambda>c. c \<noteq> SP) (trim (drop (length pre) line)) # parse_args pre line)
          = trim (drop (length pre) line)
     \<and> (\<forall>a \<in> set (parse_args pre line). SP \<notin> set a)
     \<and> (SP \<in> set (trim (drop (length pre) line)) \<longrightarrow>
          parse_text pre line = tl (dropWhile (\<lambda>c. c \<noteq> SP) (trim (drop (length pre) line))))"
proof -
  let ?t = "trim (drop (length pre) line)"
  obtain ws where hd: "split_sp ?t = takeWhile (\<lambda>c. c \<noteq> SP) ?t # ws"
    using hd_split_sp [of ?t] split_sp_not_Nil [of ?t] by (cases "split_sp ?t") auto
  have 1: "line = pre @ drop (length pre) line"
    using assms by (rule startsWith_decompose)
  have 2: "parse_command pre line = Some (toLowerCase (takeWhile (\<lambda>c. c \<noteq> SP) ?t))"
    using hd by (simp add: parse_command_def parse_args0_def stripped_def slice_def)
  have 3: "join [SP] (takeWhile (\<lambda>c. c \<noteq> SP) ?t # parse_args pre line) = ?t"
    using join_split_sp [of ?t] hd by (simp add: parse_args_def parse_args0_def stripped_def slice_def)
  have 4: "\<forall>a \<in> set (parse_args pre line). SP \<notin> set a"
    by (metis list.set_sel(2) parse_args_def parse_args0_def split_sp_not_Nil split_sp_tokens)
  have 5: "parse_text pre line
          = (if SP \<in> set ?t then tl (dropWhile (\<lambda>c. c \<noteq> SP) ?t) else ?t)"
    by (simp only: parse_text_def parse_args0_def stripped_def slice_def replace_first_token)
  show ?thesis using 1 2 3 4 5 by simp
qed

theorem parse_by_single_spaces_witness:
  "startsWith ''!Close  Room A'' ''!''
   \<and> SP \<in> set (trim (drop (length ''!'') ''!Close  Room A''))
   \<and> parse_command ''!'' ''!Close  Room A'' = Some ''close''
   \<and> parse_args ''!'' ''!Close  Room A'' = [[], ''Room'', ''A'']
   \<and> parse_text ''!'' ''!Close  Room A'' = '' Room A''"
  using parse_by_single_spaces [of "''!Close  Room A''" "''!''"]
  by (simp add: parse_defs)

lemma bare_parse:
  assumes "\<forall>c \<in> set name. \<not> is_ws c"
  shows "stripped pre (pre @ name) = name" and "parse_args0 pre (pre @ name) = [name]"
    and "parse_text pre (pre @ name) = name"
proof -
  have sp: "SP \<notin> set name" using assms by auto
  show 1: "stripped pre (pre @ name) = name"
    using assms by (simp add: stripped_def slice_def trim_no_ws)
  show 2: "parse_args0 pre (pre @ name) = [name]"
    using sp by (simp add: parse_args0_def 1 split_sp_no_space)
  show "parse_text pre (pre @ name) = name"
    by (simp add: parse_text_def 1 2 arg0_space_def replace_first_short)
qed

text \<open>
  C8. For the prefix followed by a command name without white space, \<open>text\<close> is the
  name as typed, \<open>args\<close> is empty and the command is the name in lower case. So an
  operator's \<open>close\<close> without a target calls \<open>this._server.close\<close> with the word
  \<open>close\<close> itself (as typed) as the target.
\<close>

theorem bare_command_tail:
  assumes "\<forall>c \<in> set name. \<not> is_ws c"
  shows "parse_text (prefix env) (prefix env @ name) = name
     \<and> parse_args (prefix env) (prefix env @ name) = []
     \<and> parse_command (prefix env) (prefix env @ name) = Some (toLowerCase name)
     \<and> (toLowerCase name = ''close'' \<and> a \<in> set (mastersDiscordId env) \<longrightarrow>
          command env \<lparr>content = prefix env @ name, author_id = a\<rparr> = cmd_close env name
          \<and> take 1 (fst (cmd_close env name)) = [Close name])"
proof -
  note p = bare_parse [OF assms, of "prefix env"]
  have 1: "parse_args (prefix env) (prefix env @ name) = []"
    by (simp add: parse_args_def p)
  have 2: "parse_command (prefix env) (prefix env @ name) = Some (toLowerCase name)"
    by (simp add: parse_command_def p)
  have 3: "command env \<lparr>content = prefix env @ name, author_id = a\<rparr> = cmd_close env name"
    if "toLowerCase name = ''close''" and "a \<in> set (mastersDiscordId env)"
    using command_close [of "\<lparr>content = prefix env @ name, author_id = a\<rparr>" env] that
    by (simp add: 2 p)
  have 4: "take 1 (fst (cmd_close env name)) = [Close name]"
    by (simp add: cmd_close_def Let_def split: sum.splits)
  show ?thesis using p(3) 1 2 3 4 by blast
qed

theorem bare_command_tail_witness:
  "\<not> list_ex is_ws ''close''
   \<and> parse_text ''!'' ''!close'' = ''close''
   \<and> parse_args ''!'' ''!close'' = []
   \<and> parse_command ''!'' ''!close'' = Some ''close''
   \<and> command ex_env \<lparr>content = ''!close'', author_id = ''op''\<rparr>
        = ([Close ''close'',
            Send \<lparr>e_color = Some ''#0099ff'', e_title = Some ''Close room'',
                  e_description = Some ''Unable to find room'', e_fields = []\<rparr>], Fulfilled)"
  using bare_command_tail [of "''close''" ex_env "''op''"]
  by (simp add: ex_env_simps is_ws_def toLowerCase_def lower_char_def cmd_close_def ex_env_def embed_defs)

subsection \<open>The listener and failures of a handler\<close>

lemma msg_close_room_parse:
  "startsWith (content msg_close_room) ''!''"
  "author_id msg_close_room = ''op''"
  "parse_command ''!'' (content msg_close_room) = Some ''close''"
  "parse_text ''!'' (content msg_close_room) = ''Room A''"
  by (simp_all add: msg_close_room_def parse_defs)

text \<open>
  C1 (the code departs from the claim). The operator sends \<open>!close Room A\<close> and the
  room server's \<open>close\<close> rejects. The promise of \<open>_command\<close> is rejected, the
  \<open>catch\<close> of the listener does not run, no reply describing the error is sent, and the
  rejection reaches the event loop unhandled.
\<close>

theorem listener_lets_rejection_escape:
  "command ex_env_close_fails msg_close_room = ([Close ''Room A''], Rejected (Err ''Target closed''))
   \<and> on_message ex_env_close_fails msg_close_room
       = ([Close ''Room A''], UnhandledRejection (Err ''Target closed''))"
proof -
  have "command ex_env_close_fails msg_close_room
      = cmd_close ex_env_close_fails (parse_text ''!'' (content msg_close_room))"
    using command_close [of msg_close_room ex_env_close_fails]
    by (simp add: ex_env_close_fails_def ex_env_simps msg_close_room_parse)
  then have c: "command ex_env_close_fails msg_close_room
      = ([Close ''Room A''], Rejected (Err ''Target closed''))"
    by (simp add: msg_close_room_parse cmd_close_def ex_env_close_fails_def)
  show ?thesis
    by (simp add: c on_message_def call_async_def)
qed

subsection \<open>The \<open>open\<close> command\<close>

lemma msg_empty_token_parse:
  "startsWith (content msg_empty_token) ''!''"
  "author_id msg_empty_token = ''op''"
  "parse_command ''!'' (content msg_empty_token) = Some ''open''"
  "parse_text ''!'' (content msg_empty_token) = ''alpha '' @ [DQ, DQ]"
  "parse_args ''!'' (content msg_empty_token) = [''alpha'', [DQ, DQ]]"
  by (simp_all add: msg_empty_token_def parse_defs)

lemma empty_token: "open_token (''alpha '' @ [DQ, DQ]) [''alpha'', [DQ, DQ]] = []"
  by (simp add: open_token_def remove_quotes_def arg0_space_def replace_first.simps)

text \<open>
  C3 (the code departs from the claim). The operator sends \<open>!open alpha ""\<close>: the bot
  is known and the token is empty, so line 148 sets the warning as the description. The
  callback of \<open>readFile\<close> then sets the description again before the only \<open>send\<close>: the
  room is spawned with the empty token, and the reply tells that the room runs, without
  the warning.
\<close>

theorem missing_token_warning_overwritten:
  "open_token (parse_text ''!'' (content msg_empty_token))
       (parse_args ''!'' (content msg_empty_token)) = []
   \<and> command ex_env msg_empty_token
     = ([ReadFile ''bots/alpha.js'', Open ''payload'' [],
         Send \<lparr>e_color = Some ''#0099ff'', e_title = Some ''Open room'',
               e_description = Some (''Room running! [Click here to join.](https://hax/r)'' @ [NL]
                  @ ''Browser process: 4242''),
               e_fields = []\<rparr>], Fulfilled)"
proof -
  have t: "open_token (parse_text ''!'' (content msg_empty_token))
      (parse_args ''!'' (content msg_empty_token)) = []"
    by (simp only: msg_empty_token_parse empty_token)
  have "command ex_env msg_empty_token =
      cmd_open ex_env (parse_text ''!'' (content msg_empty_token))
        (parse_args ''!'' (content msg_empty_token))"
    using command_open [of msg_empty_token ex_env]
    by (simp add: ex_env_simps msg_empty_token_parse)
  also have "\<dots> = ([ReadFile ''bots/alpha.js'', Open ''payload'' [],
         Send \<lparr>e_color = Some ''#0099ff'', e_title = Some ''Open room'',
               e_description = Some (''Room running! [Click here to join.](https://hax/r)'' @ [NL]
                  @ ''Browser process: 4242''),
               e_fields = []\<rparr>], Fulfilled)"
    unfolding cmd_open_def t
    by (simp add: Let_def msg_empty_token_parse(5) ex_env_simps known_bot_def bot_path_def
        open_callback_def embed_defs)
  finally show ?thesis using t by simp
qed

text \<open>
  C4. An \<open>open\<close> command of an operator whose first argument is no key of the bot
  catalogue (or is missing) is answered by the one reply that the bot does not exist:
  no file is read, no room is spawned, and no effect reaches the fleet.
\<close>

theorem open_unknown_bot:
  assumes "startsWith (content msg) (prefix env)"
    and "author_id msg \<in> set (mastersDiscordId env)"
    and "parse_command (prefix env) (content msg) = Some ''open''"
    and "\<not> known_bot (bots env) (parse_args (prefix env) (content msg))"
  shows "command env msg =
           ([Send \<lparr>e_color = Some ''#0099ff'', e_title = Some ''Open room'',
                   e_description = Some (''This bot does not exist. Type '' @ prefix env
                      @ ''info to see the list of available bots.''),
                   e_fields = []\<rparr>], Fulfilled)
       \<and> \<not> list_ex touches_fleet (fst (command env msg))
       \<and> (\<forall>p. ReadFile p \<notin> set (fst (command env msg)))"
proof -
  have "command env msg =
           ([Send \<lparr>e_color = Some ''#0099ff'', e_title = Some ''Open room'',
                   e_description = Some (''This bot does not exist. Type '' @ prefix env
                      @ ''info to see the list of available bots.''),
                   e_fields = []\<rparr>], Fulfilled)"
    using assms by (simp add: command_open cmd_open_def Let_def unknown_bot_text_def embed_defs)
  then show ?thesis by (simp add: touches_fleet_def)
qed

theorem open_unknown_bot_witness:
  "startsWith ''!open beta thr1.AAA'' (prefix ex_env)
   \<and> ''op'' \<in> set (mastersDiscordId ex_env)
   \<and> parse_command (prefix ex_env) ''!open beta thr1.AAA'' = Some ''open''
   \<and> parse_args (prefix ex_env) ''!open beta thr1.AAA'' = [''beta'', ''thr1.AAA'']
   \<and> \<not> known_bot (bots ex_env) [''beta'', ''thr1.AAA'']
   \<and> command ex_env \<lparr>content = ''!open beta thr1.AAA'', author_id = ''op''\<rparr> =
           ([Send \<lparr>e_color = Some ''#0099ff'', e_title = Some ''Open room'',
                   e_description =
                     Some ''This bot does not exist. Type !info to see the list of available bots.'',
                   e_fields = []\<rparr>], Fulfilled)"
  using open_unknown_bot [of "\<lparr>content = ''!open beta thr1.AAA'', author_id = ''op''\<rparr>" ex_env]
  by (simp add: ex_env_simps parse_defs known_bot_def)

lemma text_after_first_token:
  assumes "split_sp t = w # ws" and "ws \<noteq> []"
  shows "replace_first (arg0_space (split_sp t)) [] t = join [SP] ws"
proof -
  have "t = join [SP] (w # ws)"
    using join_split_sp [of t] assms(1) by simp
  then have t: "t = (w @ [SP]) @ join [SP] ws"
    using assms(2) by (simp add: join_Cons)
  have "replace_first (w @ [SP]) [] ((w @ [SP]) @ join [SP] ws) = join [SP] ws"
    by (simp only: replace_first_prefix append_Nil)
  then show ?thesis
    using t assms(1) by (simp add: arg0_space_def)
qed

lemma open_token_second_argument:
  assumes "rest \<noteq> []"
  shows "open_token (join [SP] (botId # rest)) (botId # rest)
     = replace_first ''Token obtained: '' [] (remove_quotes (join [SP] rest))"
proof -
  have "replace_first (botId @ [SP]) [] ((botId @ [SP]) @ join [SP] rest) = join [SP] rest"
    by (simp only: replace_first_prefix append_Nil)
  then show ?thesis
    using assms by (simp add: open_token_def arg0_space_def join_Cons)
qed

lemma parse_text_join:
  assumes "parse_args pre txt0 = a # as"
  shows "parse_text pre txt0 = join [SP] (a # as)"
proof -
  obtain w where "split_sp (stripped pre txt0) = w # a # as"
    using assms by (cases "split_sp (stripped pre txt0)") (auto simp: parse_args_def parse_args0_def)
  then show ?thesis
    using text_after_first_token [of "stripped pre txt0" w "a # as"]
    by (simp add: parse_text_def parse_args0_def)
qed

text \<open>
  The token of an \<open>open\<close> command that has a second argument. For an operator's
  \<open>open\<close> command with a known bot, a readable payload and at least one argument
  after the bot id, the token handed to \<open>this._server.open\<close> is the text after the bot
  id (the further arguments joined by single spaces) with every double quote removed and
  then the first occurrence of \<open>Token obtained: \<close> removed.
\<close>

theorem open_token_sanitized:
  assumes "startsWith (content msg) (prefix env)"
    and "author_id msg \<in> set (mastersDiscordId env)"
    and "parse_command (prefix env) (content msg) = Some ''open''"
    and "parse_args (prefix env) (content msg) = botId # rest"
    and "rest \<noteq> []"
    and "map_of (bots env) botId = Some path"
    and "read_file env path = Inr data"
  shows "\<exists>reply. command env msg =
           ([ReadFile path,
             Open data (replace_first ''Token obtained: '' [] (remove_quotes (join [SP] rest))),
             Send reply], Fulfilled)"
proof -
  let ?token = "replace_first ''Token obtained: '' [] (remove_quotes (join [SP] rest))"
  have tx: "parse_text (prefix env) (content msg) = join [SP] (botId # rest)"
    using assms(4) by (rule parse_text_join)
  have tok: "open_token (join [SP] (botId # rest)) (botId # rest) = ?token"
    using assms(5) by (rule open_token_second_argument)
  have known: "known_bot (bots env) (botId # rest)"
    using assms(6) by (auto simp: known_bot_def dest: map_of_SomeD intro: rev_image_eqI)
  have path: "bot_path (bots env) (botId # rest) = path"
    using assms(6) by (simp add: bot_path_def)
  obtain reply where cb: "open_callback env e ?token (Inr data) = [Open data ?token, Send (reply e)]" for e
    by (cases "server_open env data ?token") (auto simp: open_callback_def)
  have "command env msg = cmd_open env (join [SP] (botId # rest)) (botId # rest)"
    using command_open [OF assms(1,2,3)] by (simp only: tx assms(4))
  also have "\<dots> = (ReadFile path # open_callback env
       (if ?token = [] then setDescription (missing_token_text (prefix env)) (setTitle ''Open room'' base_embed)
        else setTitle ''Open room'' base_embed) ?token (Inr data), Fulfilled)"
    unfolding cmd_open_def tok by (simp add: Let_def known path assms(7))
  finally show ?thesis
    by (simp add: cb)
qed

lemma msg_pasted_token_parse:
  "startsWith (content msg_pasted_token) ''!''"
  "author_id msg_pasted_token = ''op''"
  "parse_command ''!'' (content msg_pasted_token) = Some ''open''"
  "parse_args ''!'' (content msg_pasted_token)
     = [''alpha'', ''Token'', ''obtained:'', [DQ] @ ''thr1.AAA'' @ [DQ]]"
  by (simp_all add: msg_pasted_token_def parse_defs)

lemma pasted_token:
  "replace_first ''Token obtained: '' []
     (remove_quotes (join [SP] [''Token'', ''obtained:'', [DQ] @ ''thr1.AAA'' @ [DQ]])) = ''thr1.AAA''"
  by (simp add: remove_quotes_def replace_first.simps)

theorem open_token_sanitized_witness:
  "startsWith (content msg_pasted_token) (prefix ex_env)
   \<and> author_id msg_pasted_token \<in> set (mastersDiscordId ex_env)
   \<and> parse_command (prefix ex_env) (content msg_pasted_token) = Some ''open''
   \<and> parse_args (prefix ex_env) (content msg_pasted_token)
        = [''alpha'', ''Token'', ''obtained:'', [DQ] @ ''thr1.AAA'' @ [DQ]]
   \<and> map_of (bots ex_env) ''alpha'' = Some ''bots/alpha.js''
   \<and> read_file ex_env ''bots/alpha.js'' = Inr ''payload''
   \<and> (\<exists>reply. command ex_env msg_pasted_token
         = ([ReadFile ''bots/alpha.js'', Open ''payload'' ''thr1.AAA'', Send reply], Fulfilled))"
  using open_token_sanitized [of msg_pasted_token ex_env "''alpha''"
      "[''Token'', ''obtained:'', [DQ] @ ''thr1.AAA'' @ [DQ]]" "''bots/alpha.js''" "''payload''"]
  unfolding pasted_token
  by (simp add: ex_env_simps msg_pasted_token_parse)

lemma msg_open_alpha_parse:
  "startsWith ''!open alpha'' ''!''"
  "parse_command ''!'' ''!open alpha'' = Some ''open''"
  "parse_text ''!'' ''!open alpha'' = ''alpha''"
  "parse_args ''!'' ''!open alpha'' = [''alpha'']"
  by (simp_all add: parse_defs)

text \<open>
  C9 (the code departs from the claim). The operator sends \<open>!open alpha\<close>: there is
  no second argument, so its text is empty, and line 147 expects an empty token then.
  But \<open>text\<close> is the bot id alone, line 139 finds no \<open>alpha \<close> to remove in it, and
  the room is spawned with the token \<open>alpha\<close>, the bot id itself.
\<close>

theorem open_without_token_passes_bot_id:
  "spec_open_token (parse_args ''!'' ''!open alpha'') = []
   \<and> command ex_env \<lparr>content = ''!open alpha'', author_id = ''op''\<rparr>
     = ([ReadFile ''bots/alpha.js'', Open ''payload'' ''alpha'',
         Send \<lparr>e_color = Some ''#0099ff'', e_title = Some ''Open room'',
               e_description = Some (''Room running! [Click here to join.](https://hax/r)'' @ [NL]
                  @ ''Browser process: 4242''),
               e_fields = []\<rparr>], Fulfilled)"
proof -
  have s: "spec_open_token (parse_args ''!'' ''!open alpha'') = []"
    by (simp add: msg_open_alpha_parse spec_open_token_def remove_quotes_def replace_first.simps)
  have t: "open_token ''alpha'' [''alpha''] = ''alpha''"
    by (simp add: open_token_def remove_quotes_def arg0_space_def replace_first.simps)
  have "command ex_env \<lparr>content = ''!open alpha'', author_id = ''op''\<rparr>
      = cmd_open ex_env ''alpha'' [''alpha'']"
    using command_open [of "\<lparr>content = ''!open alpha'', author_id = ''op''\<rparr>" ex_env]
    by (simp add: ex_env_simps msg_open_alpha_parse)
  also have "\<dots> = ([ReadFile ''bots/alpha.js'', Open ''payload'' ''alpha'',
         Send \<lparr>e_color = Some ''#0099ff'', e_title = Some ''Open room'',
               e_description = Some (''Room running! [Click here to join.](https://hax/r)'' @ [NL]
                  @ ''Browser process: 4242''),
               e_fields = []\<rparr>], Fulfilled)"
    unfolding cmd_open_def t
    by (simp add: Let_def ex_env_simps known_bot_def bot_path_def open_callback_def embed_defs)
  finally show ?thesis using s by simp
qed

subsection \<open>The room inventory\<close>

lemma first_seen_snoc:
  "first_seen (xs @ [x]) = (if x \<in> set xs then first_seen xs else first_seen xs @ [x])"
  by (simp add: first_seen_def)

lemma set_first_seen [simp]: "set (first_seen xs) = set xs"
  by (simp add: first_seen_def)

lemma distinct_first_seen [simp]: "distinct (first_seen xs)"
  by (simp add: first_seen_def)

lemma members_snoc:
  "members (rooms @ [r]) p = members rooms p @ (if r_proxy r = p then r_name r @ [NL] else [])"
  by (simp add: members_def)

lemma members_absent: "p \<notin> r_proxy ` set rooms \<Longrightarrow> members rooms p = []"
  by (induction rooms) (auto simp: members_def)

lemma add_room_groups:
  assumes "distinct ps"
  shows "add_room r (map (\<lambda>p. \<lparr>pr_text = f p, pr_proxy = p\<rparr>) ps)
     = (if r_proxy r \<in> set ps
        then map (\<lambda>p. \<lparr>pr_text = (if p = r_proxy r then f p @ r_name r @ [NL] else f p),
                        pr_proxy = p\<rparr>) ps
        else map (\<lambda>p. \<lparr>pr_text = f p, pr_proxy = p\<rparr>) ps
               @ [\<lparr>pr_text = r_name r @ [NL], pr_proxy = r_proxy r\<rparr>])"
  using assms by (induction ps) auto

lemma group_rooms_snoc: "group_rooms (rooms @ [r]) = add_room r (group_rooms rooms)"
  by (simp add: group_rooms_def)

lemma group_rooms_eq:
  "group_rooms rooms
     = map (\<lambda>p. \<lparr>pr_text = members rooms p, pr_proxy = p\<rparr>) (first_seen (map r_proxy rooms))"
proof (induction rooms rule: rev_induct)
  case Nil
  show ?case by (simp add: group_rooms_def first_seen_def)
next
  case (snoc r rooms)
  let ?ps = "first_seen (map r_proxy rooms)"
  have step: "group_rooms (rooms @ [r])
      = add_room r (map (\<lambda>p. \<lparr>pr_text = members rooms p, pr_proxy = p\<rparr>) ?ps)"
    by (simp add: group_rooms_snoc snoc.IH)
  show ?case
  proof (cases "r_proxy r \<in> set (map r_proxy rooms)")
    case True
    then have "first_seen (map r_proxy rooms @ [r_proxy r]) = ?ps"
      by (simp add: first_seen_snoc)
    moreover have "add_room r (map (\<lambda>p. \<lparr>pr_text = members rooms p, pr_proxy = p\<rparr>) ?ps)
        = map (\<lambda>p. \<lparr>pr_text = members (rooms @ [r]) p, pr_proxy = p\<rparr>) ?ps"
      using True by (simp add: add_room_groups members_snoc)
    ultimately show ?thesis using step by simp
  next
    case False
    then have fs: "first_seen (map r_proxy rooms @ [r_proxy r]) = ?ps @ [r_proxy r]"
      by (simp add: first_seen_snoc)
    have old: "map (\<lambda>p. \<lparr>pr_text = members (rooms @ [r]) p, pr_proxy = p\<rparr>) ?ps
        = map (\<lambda>p. \<lparr>pr_text = members rooms p, pr_proxy = p\<rparr>) ?ps"
      using False by (auto simp: members_snoc)
    have new: "members (rooms @ [r]) (r_proxy r) = r_name r @ [NL]"
      using False by (simp add: members_snoc members_absent)
    have "add_room r (map (\<lambda>p. \<lparr>pr_text = members rooms p, pr_proxy = p\<rparr>) ?ps)
        = map (\<lambda>p. \<lparr>pr_text = members rooms p, pr_proxy = p\<rparr>) ?ps
            @ [\<lparr>pr_text = r_name r @ [NL], pr_proxy = r_proxy r\<rparr>]"
      using False by (simp add: add_room_groups)
    then show ?thesis using step by (simp add: fs old new)
  qed
qed

lemma collect_rooms_ok: "map room_of bs = map Inr rooms \<Longrightarrow> collect_rooms bs = Inr rooms"
  by (induction bs arbitrary: rooms) auto

text \<open>
  C7. When every room's title can be read and at least one room has a proxy label, the
  inventory is made of one group per proxy (the rooms without a label forming the group
  of \<open>undefined\<close>), the groups in the order in which their proxies are first seen and
  joined by a line feed. A group is a header line (a bullet and the proxy) followed by
  one line per member in fleet order, each the room's title and its process id in
  parentheses. For the scenario's fleet this is the header of \<open>proxy1\<close> with rooms A
  and B, then the header \<open>undefined\<close> with room C.
\<close>

theorem describe_groups_by_proxy:
  assumes "map room_of bs = map Inr rooms"
    and "\<exists>r \<in> set rooms. r_proxy r \<noteq> None"
  shows "getRoomNameList bs =
     Inr (join [NL]
       (map (\<lambda>p. bullet @ show_proxy p @ [NL]
                   @ concat (map (\<lambda>r. r_name r @ [NL]) (filter (\<lambda>r. r_proxy r = p) rooms)))
            (first_seen (map r_proxy rooms))))"
proof -
  have ne: "rooms \<noteq> []" and some: "\<not> list_all (\<lambda>r. r_proxy r = None) rooms"
    using assms(2) by (auto simp: list_all_iff)
  have "describe rooms = join [NL] (map render_group (group_rooms rooms))"
    using ne some by (simp add: describe_def)
  also have "map render_group (group_rooms rooms)
      = map (\<lambda>p. bullet @ show_proxy p @ [NL] @ members rooms p) (first_seen (map r_proxy rooms))"
    by (simp add: group_rooms_eq render_group_def)
  finally show ?thesis
    using collect_rooms_ok [OF assms(1)] by (simp add: getRoomNameList_def members_def)
qed

theorem describe_groups_by_proxy_witness:
  "map room_of ex_fleet
      = map Inr [\<lparr>r_name = ''Room A (101)'', r_proxy = Some ''proxy1''\<rparr>,
                 \<lparr>r_name = ''Room B (102)'', r_proxy = Some ''proxy1''\<rparr>,
                 \<lparr>r_name = ''Room C (103)'', r_proxy = None\<rparr>]
   \<and> getRoomNameList ex_fleet
       = Inr (bullet @ ''proxy1'' @ [NL] @ ''Room A (101)'' @ [NL] @ ''Room B (102)'' @ [NL] @ [NL]
              @ bullet @ ''undefined'' @ [NL] @ ''Room C (103)'' @ [NL])"
  using describe_groups_by_proxy [of ex_fleet
      "[\<lparr>r_name = ''Room A (101)'', r_proxy = Some ''proxy1''\<rparr>,
        \<lparr>r_name = ''Room B (102)'', r_proxy = Some ''proxy1''\<rparr>,
        \<lparr>r_name = ''Room C (103)'', r_proxy = None\<rparr>]"]
  by (simp add: ex_fleet_def room_of_def show_pid_def show_nat.simps digit_char_def first_seen_def
      show_proxy_def)

subsection \<open>Telemetry of the rooms\<close>

lemma msg_meminfo_parse:
  "startsWith (content msg_meminfo) ''!''"
  "author_id msg_meminfo = ''op''"
  "parse_command ''!'' (content msg_meminfo) = Some ''meminfo''"
  by (simp_all add: msg_meminfo_def parse_defs)

lemma getRoomUsageList_ok:
  "map sample_room bs = map Inr us \<Longrightarrow> getRoomUsageList bs = Inr us"
  by (induction bs arbitrary: us) auto

lemma getRoomUsageList_fail:
  "map sample_room ok = map Inr us \<Longrightarrow> sample_room b = Inl e
     \<Longrightarrow> getRoomUsageList (ok @ b # later) = Inl e"
  by (induction ok arbitrary: us) auto

lemma cmd_meminfo_fail:
  "getRoomUsageList (browsers env) = Inl e \<Longrightarrow> cmd_meminfo env = ([Send loading_embed], Rejected e)"
  by (simp add: cmd_meminfo_def meminfo_report_def)

text \<open>
  C2 (as stated, refuted). \<open>pidusage\<close> rejects for room B, while rooms A and C can be
  sampled. The \<open>meminfo\<close> command then sends the loading message and nothing else: no
  report with the other rooms is produced, and the promise is rejected.
\<close>

theorem meminfo_sampling_not_isolated:
  "map sample_room ex_fleet_b_fails
     = [Inr \<lparr>ru_process = \<lparr>u_pid = 101, u_cpu = ''1.50'', u_mem = ''120.00''\<rparr>, ru_title = ''Room A''\<rparr>,
        Inl (Err ''No matching pid found''),
        Inr \<lparr>ru_process = \<lparr>u_pid = 103, u_cpu = ''3.50'', u_mem = ''140.00''\<rparr>, ru_title = ''Room C''\<rparr>]
   \<and> command (ex_env\<lparr>browsers := ex_fleet_b_fails\<rparr>) msg_meminfo
       = ([Send loading_embed], Rejected (Err ''No matching pid found''))"
proof -
  have s: "map sample_room ex_fleet_b_fails
     = [Inr \<lparr>ru_process = \<lparr>u_pid = 101, u_cpu = ''1.50'', u_mem = ''120.00''\<rparr>, ru_title = ''Room A''\<rparr>,
        Inl (Err ''No matching pid found''),
        Inr \<lparr>ru_process = \<lparr>u_pid = 103, u_cpu = ''3.50'', u_mem = ''140.00''\<rparr>, ru_title = ''Room C''\<rparr>]"
    by (simp add: ex_fleet_b_fails_def sample_room_def)
  have "command (ex_env\<lparr>browsers := ex_fleet_b_fails\<rparr>) msg_meminfo
      = cmd_meminfo (ex_env\<lparr>browsers := ex_fleet_b_fails\<rparr>)"
    using command_meminfo [of msg_meminfo "ex_env\<lparr>browsers := ex_fleet_b_fails\<rparr>"]
    by (simp add: ex_env_simps msg_meminfo_parse)
  moreover have "getRoomUsageList ex_fleet_b_fails = Inl (Err ''No matching pid found'')"
    by (simp add: ex_fleet_b_fails_def sample_room_def)
  ultimately show ?thesis
    using s by (simp add: cmd_meminfo_fail)
qed

text \<open>
  C2 (amended). The rooms are sampled one after the other, and the sampling is not
  isolated: when the rooms before \<open>b\<close> are sampled and the sampling of \<open>b\<close> fails
  with \<open>e\<close>, the \<open>meminfo\<close> command sends the loading message only and is rejected
  with \<open>e\<close>, whatever the later rooms are; no report is produced. When every room is
  sampled, the usage list has one entry per room, in fleet order.
\<close>

theorem meminfo_stops_at_first_failure:
  assumes "startsWith (content msg) (prefix env)"
    and "author_id msg \<in> set (mastersDiscordId env)"
    and "parse_command (prefix env) (content msg) = Some ''meminfo''"
  shows "(browsers env = ok @ b # later \<and> map sample_room ok = map Inr us \<and> sample_room b = Inl e
            \<longrightarrow> command env msg = ([Send loading_embed], Rejected e)
               \<and> on_message env msg = ([Send loading_embed], UnhandledRejection e))
       \<and> (map sample_room (browsers env) = map Inr all_us
            \<longrightarrow> getRoomUsageList (browsers env) = Inr all_us)"
proof -
  have c: "command env msg = cmd_meminfo env"
    using assms by (rule command_meminfo)
  have "command env msg = ([Send loading_embed], Rejected e)"
    if "browsers env = ok @ b # later" "map sample_room ok = map Inr us" "sample_room b = Inl e"
    using that c by (simp add: cmd_meminfo_fail getRoomUsageList_fail)
  then show ?thesis
    by (auto simp: on_message_def call_async_def getRoomUsageList_ok)
qed

theorem meminfo_stops_at_first_failure_witness:
  "startsWith (content msg_meminfo) ''!''
   \<and> author_id msg_meminfo \<in> set (mastersDiscordId ex_env)
   \<and> parse_command ''!'' (content msg_meminfo) = Some ''meminfo''
   \<and> ex_fleet_b_fails = [ex_fleet_b_fails ! 0] @ ex_fleet_b_fails ! 1 # [ex_fleet_b_fails ! 2]
   \<and> map sample_room [ex_fleet_b_fails ! 0]
        = map Inr [\<lparr>ru_process = \<lparr>u_pid = 101, u_cpu = ''1.50'', u_mem = ''120.00''\<rparr>,
                    ru_title = ''Room A''\<rparr>]
   \<and> sample_room (ex_fleet_b_fails ! 1) = Inl (Err ''No matching pid found'')
   \<and> on_message (ex_env\<lparr>browsers := ex_fleet_b_fails\<rparr>) msg_meminfo
        = ([Send loading_embed], UnhandledRejection (Err ''No matching pid found''))
   \<and> getRoomUsageList (browsers (ex_env\<lparr>browsers := ex_fleet\<rparr>))
        = Inr [\<lparr>ru_process = \<lparr>u_pid = 101, u_cpu = ''1.50'', u_mem = ''120.00''\<rparr>, ru_title = ''Room A''\<rparr>,
               \<lparr>ru_process = \<lparr>u_pid = 102, u_cpu = ''2.50'', u_mem = ''130.00''\<rparr>, ru_title = ''Room B''\<rparr>,
               \<lparr>ru_process = \<lparr>u_pid = 103, u_cpu = ''3.50'', u_mem = ''140.00''\<rparr>, ru_title = ''Room C''\<rparr>]"
  using meminfo_stops_at_first_failure [of msg_meminfo "ex_env\<lparr>browsers := ex_fleet_b_fails\<rparr>"
      "[ex_fleet_b_fails ! 0]" "ex_fleet_b_fails ! 1" "[ex_fleet_b_fails ! 2]"
      "[\<lparr>ru_process = \<lparr>u_pid = 101, u_cpu = ''1.50'', u_mem = ''120.00''\<rparr>, ru_title = ''Room A''\<rparr>]"
      "Err ''No matching pid found''"]
    meminfo_stops_at_first_failure [of msg_meminfo "ex_env\<lparr>browsers := ex_fleet\<rparr>" _ _ _ _ _
      "[\<lparr>ru_process = \<lparr>u_pid = 101, u_cpu = ''1.50'', u_mem = ''120.00''\<rparr>, ru_title = ''Room A''\<rparr>,
        \<lparr>ru_process = \<lparr>u_pid = 102, u_cpu = ''2.50'', u_mem = ''130.00''\<rparr>, ru_title = ''Room B''\<rparr>,
        \<lparr>ru_process = \<lparr>u_pid = 103, u_cpu = ''3.50'', u_mem = ''140.00''\<rparr>, ru_title = ''Room C''\<rparr>]"]
  by (simp add: ex_env_simps msg_meminfo_parse ex_fleet_b_fails_def ex_fleet_def sample_room_def)

subsection \<open>Authorization and the command surface\<close>

text \<open>
  C5. A message of a sender outside \<open>mastersDiscordId\<close> is handled in silence: no
  effect, a fulfilled promise, nothing at the event loop. A message whose command is none
  of the names tested by \<open>_command\<close> (from an operator in particular) ends the same way.
\<close>

theorem unauthorized_is_silent:
  assumes "author_id m \<notin> set (mastersDiscordId env)"
    and "parse_command (prefix env) (content m') \<notin> Some ` set command_names"
  shows "command env m = ([], Fulfilled) \<and> on_message env m = ([], Quiet)
     \<and> command env m' = command env m \<and> on_message env m' = on_message env m"
proof -
  have a: "command env m = ([], Fulfilled)"
    using assms(1) by (simp add: command_def Let_def)
  have b: "command env m' = ([], Fulfilled)"
    using assms(2) by (simp add: command_def Let_def command_names_def)
  show ?thesis
    by (simp add: a b on_message_def call_async_def)
qed

theorem unauthorized_is_silent_witness:
  "author_id \<lparr>content = ''!open alpha tok'', author_id = ''mallory''\<rparr> \<notin> set (mastersDiscordId ex_env)
   \<and> author_id \<lparr>content = ''!dance'', author_id = ''op''\<rparr> \<in> set (mastersDiscordId ex_env)
   \<and> parse_command (prefix ex_env) ''!dance'' = Some ''dance''
   \<and> command ex_env \<lparr>content = ''!open alpha tok'', author_id = ''mallory''\<rparr> = ([], Fulfilled)
   \<and> on_message ex_env \<lparr>content = ''!open alpha tok'', author_id = ''mallory''\<rparr> = ([], Quiet)
   \<and> command ex_env \<lparr>content = ''!dance'', author_id = ''op''\<rparr> = ([], Fulfilled)
   \<and> on_message ex_env \<lparr>content = ''!dance'', author_id = ''op''\<rparr> = ([], Quiet)"
  using unauthorized_is_silent [of "\<lparr>content = ''!open alpha tok'', author_id = ''mallory''\<rparr>" ex_env
      "\<lparr>content = ''!dance'', author_id = ''op''\<rparr>"]
  by (simp add: ex_env_simps parse_defs command_names_def)

text \<open>
  C10. For an operator's message, the command \<open>tokenlink\<close> is answered by the fixed
  reply that links to the headless-token page; and the message is handled in silence
  exactly when its command is none of the eight names \<open>help\<close>, \<open>tokenlink\<close>, \<open>open\<close>,
  \<open>info\<close>, \<open>meminfo\<close>, \<open>close\<close>, \<open>exit\<close>, \<open>eval\<close>.
\<close>

theorem tokenlink_reply:
  assumes "startsWith (content msg) (prefix env)"
    and "author_id msg \<in> set (mastersDiscordId env)"
  shows "(parse_command (prefix env) (content msg) = Some ''tokenlink'' \<longrightarrow>
            command env msg =
              ([Send \<lparr>e_color = Some ''#0099ff'', e_title = Some ''Headless Token'',
                      e_description = Some ''[Click here.](https://www.haxball.com/headlesstoken)'',
                      e_fields = []\<rparr>], Fulfilled))
       \<and> ((command env msg = ([], Fulfilled))
            = (parse_command (prefix env) (content msg) \<notin> Some ` set command_names))"
proof -
  have a: "parse_command (prefix env) (content msg) = Some ''tokenlink'' \<Longrightarrow>
            command env msg =
              ([Send \<lparr>e_color = Some ''#0099ff'', e_title = Some ''Headless Token'',
                      e_description = Some ''[Click here.](https://www.haxball.com/headlesstoken)'',
                      e_fields = []\<rparr>], Fulfilled)"
    using assms by (simp add: command_def Let_def tokenlink_embed_def embed_defs)
  have b: "(command env msg = ([], Fulfilled))
            = (parse_command (prefix env) (content msg) \<notin> Some ` set command_names)"
    using assms by (simp add: command_def Let_def command_names_def not_silent)
  show ?thesis using a b by blast
qed

theorem tokenlink_reply_witness:
  "startsWith ''!TokenLink'' (prefix ex_env)
   \<and> ''op'' \<in> set (mastersDiscordId ex_env)
   \<and> parse_command (prefix ex_env) ''!TokenLink'' = Some ''tokenlink''
   \<and> command ex_env \<lparr>content = ''!TokenLink'', author_id = ''op''\<rparr> =
              ([Send \<lparr>e_color = Some ''#0099ff'', e_title = Some ''Headless Token'',
                      e_description = Some ''[Click here.](https://www.haxball.com/headlesstoken)'',
                      e_fields = []\<rparr>], Fulfilled)
   \<and> ''tokenlink'' \<in> set command_names"
  using tokenlink_reply [of "\<lparr>content = ''!TokenLink'', author_id = ''op''\<rparr>" ex_env]
  by (simp add: ex_env_simps parse_defs command_names_def)

end
